theory Spec2Isabelle
  imports Main "HOL-Library.AList"
begin

section \<open>Exceptions and dynamically typed values\<close>

text \<open>
  The exception classes that occur in \<^verbatim>\<open>task1.py\<close>. An exception object is its class
  together with its message. Every class listed is a subclass of \<^verbatim>\<open>Exception\<close>; none of
  the other four is a subclass of another one of them.
\<close>

datatype exn_class = KeyError | ValueError | IndexError | OverflowError | Exception

datatype exn = Exn exn_class string

fun exn_message :: "exn \<Rightarrow> string" where
  "exn_message (Exn c m) = m"

fun isinstance :: "exn \<Rightarrow> exn_class \<Rightarrow> bool" where
  "isinstance (Exn c m) k = (k = Exception \<or> c = k)"

section \<open>Characters and digits\<close>

text \<open>
  Strings are lists of characters with code points below 256. In that range the class
  \<^verbatim>\<open>\d\<close> of Python's \<^verbatim>\<open>re\<close> module holds the ten ASCII digits only.
\<close>

definition isdigit :: "char \<Rightarrow> bool" where
  "isdigit c = (c \<in> set ''0123456789'')"

definition newline :: char where
  "newline = CHR 0x0A"

section \<open>Field value types\<close>

datatype Phone = Phone (phone_value: string)

text \<open>
  \<^verbatim>\<open>re.match(r"^\d{10}$", value)\<close>: the match starts at the beginning of the string, takes
  exactly ten digits, and \<^verbatim>\<open>$\<close> (without \<^verbatim>\<open>re.MULTILINE\<close>) holds at the end of the string
  and also just before a newline that is the last character of the string.
\<close>

definition match_phone :: "string \<Rightarrow> bool" where
  "match_phone s =
     (10 \<le> length s \<and> list_all isdigit (take 10 s) \<and>
      (drop 10 s = [] \<or> drop 10 s = [newline]))"

definition Phone_init :: "string \<Rightarrow> exn + Phone" where
  "Phone_init v =
     (if \<not> match_phone v then Inl (Exn Exception ''Phone number must be exactly 10 digits.'')
      else Inr (Phone v))"

text \<open>\<^verbatim>\<open>Field.__str__\<close> on a phone: \<^verbatim>\<open>str(self.value)\<close>.\<close>

definition Phone_str :: "Phone \<Rightarrow> string" where
  "Phone_str p = phone_value p"

section \<open>Decimal numerals\<close>

text \<open>The digit for a number below ten, and the number a digit stands for.\<close>

definition digit_char :: "nat \<Rightarrow> char" where
  "digit_char n = ''0123456789'' ! n"

definition digit_val :: "char \<Rightarrow> int" where
  "digit_val c = int (length (takeWhile (\<lambda>d. d \<noteq> c) ''0123456789''))"

text \<open>\<^verbatim>\<open>str(n)\<close> for a natural number.\<close>

function str_nat :: "nat \<Rightarrow> string" where
  "str_nat n = (if n < 10 then [digit_char n] else str_nat (n div 10) @ [digit_char (n mod 10)])"
  by pat_completeness auto
termination
  by (relation "measure id") auto

declare str_nat.simps [simp del]

definition str_int :: "int \<Rightarrow> string" where
  "str_int i = (if i < 0 then CHR ''-'' # str_nat (nat (- i)) else str_nat (nat i))"

text \<open>\<^verbatim>\<open>str.zfill\<close> on a string without a sign.\<close>

definition zfill :: "nat \<Rightarrow> string \<Rightarrow> string" where
  "zfill w s = replicate (w - length s) CHR ''0'' @ s"

definition isspace :: "char \<Rightarrow> bool" where
  "isspace c = (c \<in> set [CHR '' '', CHR 0x09, CHR 0x0A, CHR 0x0B, CHR 0x0C, CHR 0x0D])"

definition strip :: "string \<Rightarrow> string" where
  "strip s = rev (dropWhile isspace (rev (dropWhile isspace s)))"

text \<open>
  \<^verbatim>\<open>int(s)\<close> on text: surrounding whitespace is dropped and what is left must be a
  non-empty run of digits. (Signs and underscores, which \<^verbatim>\<open>int\<close> also reads, never occur
  in the regular-expression groups this is applied to.)
\<close>

definition py_int :: "string \<Rightarrow> exn + int" where
  "py_int s =
     (let t = strip s in
      if t \<noteq> [] \<and> list_all isdigit t
      then Inr (foldl (\<lambda>a c. 10 * a + digit_val c) 0 t)
      else Inl (Exn ValueError (''invalid literal for int() with base 10: '' @ s)))"

text \<open>\<^verbatim>\<open>sep.join(xs)\<close>.\<close>

fun join :: "string \<Rightarrow> string list \<Rightarrow> string" where
  "join sep [] = []"
| "join sep [x] = x"
| "join sep (x # y # ys) = x @ sep @ join sep (y # ys)"

section \<open>Calendar dates\<close>

text \<open>
  \<^verbatim>\<open>datetime.date\<close>: a proleptic Gregorian date. The functions follow the library's
  reference implementation (\<^verbatim>\<open>_is_leap\<close>, \<^verbatim>\<open>_days_before_year\<close>, \<^verbatim>\<open>_days_in_month\<close>,
  \<^verbatim>\<open>_days_before_month\<close>, \<^verbatim>\<open>_ymd2ord\<close>, \<^verbatim>\<open>_ord2ymd\<close>, \<^verbatim>\<open>_check_date_fields\<close>).
\<close>

record date =
  year :: int
  month :: int
  day :: int

definition MINYEAR :: int where "MINYEAR = 1"
definition MAXYEAR :: int where "MAXYEAR = 9999"
definition MAXORDINAL :: int where "MAXORDINAL = 3652059"

definition is_leap :: "int \<Rightarrow> bool" where
  "is_leap y = (y mod 4 = 0 \<and> (y mod 100 \<noteq> 0 \<or> y mod 400 = 0))"

definition days_before_year :: "int \<Rightarrow> int" where
  "days_before_year y = (let y1 = y - 1 in y1 * 365 + y1 div 4 - y1 div 100 + y1 div 400)"

definition DAYS_IN_MONTH :: "int list" where
  "DAYS_IN_MONTH = [-1, 31, 28, 31, 30, 31, 30, 31, 31, 30, 31, 30, 31]"

definition DAYS_BEFORE_MONTH :: "int list" where
  "DAYS_BEFORE_MONTH = [-1, 0, 31, 59, 90, 120, 151, 181, 212, 243, 273, 304, 334]"

text \<open>Both are called with \<open>1 \<le> m \<le> 12\<close> only, so the table reads are in range.\<close>

definition days_in_month :: "int \<Rightarrow> int \<Rightarrow> int" where
  "days_in_month y m = (if m = 2 \<and> is_leap y then 29 else DAYS_IN_MONTH ! nat m)"

definition days_before_month :: "int \<Rightarrow> int \<Rightarrow> int" where
  "days_before_month y m = DAYS_BEFORE_MONTH ! nat m + (if m > 2 \<and> is_leap y then 1 else 0)"

definition ymd2ord :: "int \<Rightarrow> int \<Rightarrow> int \<Rightarrow> int" where
  "ymd2ord y m d = days_before_year y + days_before_month y m + d"

text \<open>The constructor \<^verbatim>\<open>date(year, month, day)\<close> with its range checks.\<close>

definition date_new :: "int \<Rightarrow> int \<Rightarrow> int \<Rightarrow> exn + date" where
  "date_new y m d =
     (if \<not> (MINYEAR \<le> y \<and> y \<le> MAXYEAR)
      then Inl (Exn ValueError (''year '' @ str_int y @ '' is out of range''))
      else if \<not> (1 \<le> m \<and> m \<le> 12) then Inl (Exn ValueError ''month must be in 1..12'')
      else if \<not> (1 \<le> d \<and> d \<le> days_in_month y m)
      then Inl (Exn ValueError ''day is out of range for month'')
      else Inr \<lparr>year = y, month = m, day = d\<rparr>)"

definition valid_date :: "date \<Rightarrow> bool" where
  "valid_date d =
     (MINYEAR \<le> year d \<and> year d \<le> MAXYEAR \<and> 1 \<le> month d \<and> month d \<le> 12 \<and>
      1 \<le> day d \<and> day d \<le> days_in_month (year d) (month d))"

definition toordinal :: "date \<Rightarrow> int" where
  "toordinal d = ymd2ord (year d) (month d) (day d)"

definition weekday :: "date \<Rightarrow> int" where
  "weekday d = (toordinal d + 6) mod 7"

text \<open>\<^verbatim>\<open>d.replace(year=y)\<close> builds a new date and so runs the range checks again.\<close>

definition replace_year :: "date \<Rightarrow> int \<Rightarrow> exn + date" where
  "replace_year d y = date_new y (month d) (day d)"

definition ord2ymd :: "int \<Rightarrow> date" where
  "ord2ymd n0 =
     (let n = n0 - 1;
          n400 = n div 146097; n = n mod 146097;
          n100 = n div 36524; n = n mod 36524;
          n4 = n div 1461; n = n mod 1461;
          n1 = n div 365; n = n mod 365;
          y = n400 * 400 + 1 + n100 * 100 + n4 * 4 + n1
      in if n1 = 4 \<or> n100 = 4 then \<lparr>year = y - 1, month = 12, day = 31\<rparr>
         else
           let leapyear = (n1 = 3 \<and> (n4 \<noteq> 24 \<or> n100 = 3));
               m = (n + 50) div 32;
               preceding = DAYS_BEFORE_MONTH ! nat m + (if m > 2 \<and> leapyear then 1 else 0)
           in if preceding > n
              then \<lparr>year = y, month = m - 1,
                     day = n - (preceding - (DAYS_IN_MONTH ! nat (m - 1)
                                + (if m - 1 = 2 \<and> leapyear then 1 else 0))) + 1\<rparr>
              else \<lparr>year = y, month = m, day = n - preceding + 1\<rparr>)"

text \<open>\<^verbatim>\<open>d + timedelta(days=k)\<close>.\<close>

definition date_add_days :: "date \<Rightarrow> int \<Rightarrow> exn + date" where
  "date_add_days d k =
     (let ordinal = toordinal d + k in
      if 0 < ordinal \<and> ordinal \<le> MAXORDINAL then Inr (ord2ymd ordinal)
      else Inl (Exn OverflowError ''date value out of range''))"

text \<open>\<^verbatim>\<open>(d1 - d2).days\<close>.\<close>

definition days_between :: "date \<Rightarrow> date \<Rightarrow> int" where
  "days_between d1 d2 = toordinal d1 - toordinal d2"

text \<open>\<^verbatim>\<open>str(d)\<close>, the ISO form \<^verbatim>\<open>YYYY-MM-DD\<close>.\<close>

definition isoformat :: "date \<Rightarrow> string" where
  "isoformat d =
     zfill 4 (str_int (year d)) @ ''-'' @ zfill 2 (str_int (month d)) @ ''-'' @
     zfill 2 (str_int (day d))"

section \<open>Parsing and formatting with \<^verbatim>\<open>DATE_FORMAT = '%d.%m.%Y'\<close>\<close>

text \<open>
  \<^verbatim>\<open>datetime.strptime\<close> turns the format into a regular expression, matches it at the start
  of the text, and then requires that the match has consumed the whole text. The directives
  are
  \<^verbatim>\<open>%d = (?P<d>3[0-1]|[1-2]\d|0[1-9]|[1-9]| [1-9])\<close>,
  \<^verbatim>\<open>%m = (?P<m>1[0-2]|0[1-9]|[1-9])\<close> and \<^verbatim>\<open>%Y = (?P<Y>\d\d\d\d)\<close>.
  Each piece below lists the ways it can match a prefix of the text, as pairs of the matched
  text and the remainder, in the order in which the backtracking matcher tries them.
\<close>

definition one_char :: "(char \<Rightarrow> bool) \<Rightarrow> string \<Rightarrow> (string \<times> string) list" where
  "one_char p s = (case s of c # r \<Rightarrow> if p c then [([c], r)] else [] | _ \<Rightarrow> [])"

definition two_chars ::
  "(char \<Rightarrow> bool) \<Rightarrow> (char \<Rightarrow> bool) \<Rightarrow> string \<Rightarrow> (string \<times> string) list" where
  "two_chars p q s =
     (case s of c1 # c2 # r \<Rightarrow> if p c1 \<and> q c2 then [([c1, c2], r)] else [] | _ \<Rightarrow> [])"

definition digit19 :: "char \<Rightarrow> bool" where
  "digit19 c = (isdigit c \<and> c \<noteq> CHR ''0'')"

definition re_d :: "string \<Rightarrow> (string \<times> string) list" where
  "re_d s =
     two_chars (\<lambda>c. c = CHR ''3'') (\<lambda>c. c = CHR ''0'' \<or> c = CHR ''1'') s @
     two_chars (\<lambda>c. c = CHR ''1'' \<or> c = CHR ''2'') isdigit s @
     two_chars (\<lambda>c. c = CHR ''0'') digit19 s @
     one_char digit19 s @
     two_chars (\<lambda>c. c = CHR '' '') digit19 s"

definition re_m :: "string \<Rightarrow> (string \<times> string) list" where
  "re_m s =
     two_chars (\<lambda>c. c = CHR ''1'') (\<lambda>c. c = CHR ''0'' \<or> c = CHR ''1'' \<or> c = CHR ''2'') s @
     two_chars (\<lambda>c. c = CHR ''0'') digit19 s @
     one_char digit19 s"

definition re_Y :: "string \<Rightarrow> (string \<times> string) list" where
  "re_Y s =
     (case s of a # b # c # d # r \<Rightarrow>
        if isdigit a \<and> isdigit b \<and> isdigit c \<and> isdigit d then [([a, b, c, d], r)] else []
      | _ \<Rightarrow> [])"

definition re_dot :: "string \<Rightarrow> (string \<times> string) list" where
  "re_dot s = one_char (\<lambda>c. c = CHR ''.'') s"

text \<open>
  All the ways in which the whole expression \<^verbatim>\<open>%d\.%m\.%Y\<close> matches a prefix of the text, in
  backtracking order, as the groups \<open>d\<close>, \<open>m\<close>, \<open>Y\<close> and the text left after the match.
  \<^verbatim>\<open>format_regex.match(data_string)\<close> is the first of them.
\<close>

definition format_regex_matches :: "string \<Rightarrow> ((string \<times> string \<times> string) \<times> string) list" where
  "format_regex_matches s =
     [((d, m, y), r5). (d, r1) \<leftarrow> re_d s, (p1, r2) \<leftarrow> re_dot r1, (m, r3) \<leftarrow> re_m r2,
                       (p2, r4) \<leftarrow> re_dot r3, (y, r5) \<leftarrow> re_Y r4]"

definition format_regex_match :: "string \<Rightarrow> ((string \<times> string \<times> string) \<times> string) option" where
  "format_regex_match s = (case format_regex_matches s of [] \<Rightarrow> None | x # _ \<Rightarrow> Some x)"

text \<open>
  \<^verbatim>\<open>datetime.strptime(s, DATE_FORMAT).date()\<close>. The message texts follow the library, with
  \<^verbatim>\<open>repr\<close> of the text written as the text between single quotes.
\<close>

definition strptime :: "string \<Rightarrow> exn + date" where
  "strptime s =
     (case format_regex_match s of
        None \<Rightarrow>
          Inl (Exn ValueError
                 (''time data '' @ [CHR 0x27] @ s @ [CHR 0x27] @
                  '' does not match format '' @ [CHR 0x27] @ ''%d.%m.%Y'' @ [CHR 0x27]))
      | Some ((d, m, y), rest) \<Rightarrow>
          if rest \<noteq> [] then Inl (Exn ValueError (''unconverted data remains: '' @ rest))
          else
            (case py_int y of Inl e \<Rightarrow> Inl e | Inr yi \<Rightarrow>
             (case py_int m of Inl e \<Rightarrow> Inl e | Inr mi \<Rightarrow>
              (case py_int d of Inl e \<Rightarrow> Inl e | Inr di \<Rightarrow> date_new yi mi di))))"

text \<open>
  \<^verbatim>\<open>d.strftime(DATE_FORMAT)\<close> is the platform's C \<^verbatim>\<open>strftime\<close>: \<^verbatim>\<open>%d\<close> and \<^verbatim>\<open>%m\<close> are two
  digits, and \<^verbatim>\<open>%Y\<close> is the year in decimal, which some C libraries pad with zeros to four
  digits and others (glibc) do not. The flag \<open>pad_year\<close> says which kind the platform is;
  the two agree from the year 1000 on.
\<close>

definition strftime :: "bool \<Rightarrow> date \<Rightarrow> string" where
  "strftime pad_year d =
     zfill 2 (str_int (day d)) @ ''.'' @ zfill 2 (str_int (month d)) @ ''.'' @
     (if pad_year then zfill 4 (str_int (year d)) else str_int (year d))"

datatype Birthday = Birthday (birthday_date: date)

fun reraise_birthday :: "exn \<Rightarrow> exn" where
  "reraise_birthday e =
     (if isinstance e ValueError then Exn Exception ''Invalid date format. Use DD.MM.YYYY''
      else e)"

definition Birthday_init :: "string \<Rightarrow> exn + Birthday" where
  "Birthday_init v =
     (case strptime v of Inl e \<Rightarrow> Inl (reraise_birthday e) | Inr d \<Rightarrow> Inr (Birthday d))"

definition Birthday_str :: "bool \<Rightarrow> Birthday \<Rightarrow> string" where
  "Birthday_str pad_year b = strftime pad_year (birthday_date b)"

section \<open>Contact records\<close>

datatype Name = Name (name_value: string)

record Record =
  name :: Name
  phones :: "Phone list"
  birthday :: "Birthday option"

definition Record_init :: "string \<Rightarrow> Record" where
  "Record_init n = \<lparr>name = Name n, phones = [], birthday = None\<rparr>"

text \<open>
  A method that changes the record returns the record as it is afterwards, next to its
  result: \<open>Inl e\<close> when it raises \<open>e\<close>, and the lines it prints where it prints.
\<close>

definition Record_add_phone :: "string \<Rightarrow> Record \<Rightarrow> (exn + unit) \<times> Record" where
  "Record_add_phone phone_number r =
     (case Phone_init phone_number of
        Inl e \<Rightarrow> (Inl e, r)
      | Inr p \<Rightarrow> (Inr (), r\<lparr>phones := phones r @ [p]\<rparr>))"

text \<open>
  The loop finds the first phone with the given text; \<^verbatim>\<open>list.remove\<close> then takes out the
  first element equal to it. A \<^verbatim>\<open>Phone\<close> object is always true in a condition.
\<close>

definition Record_remove_phone :: "string \<Rightarrow> Record \<Rightarrow> Record \<times> string list" where
  "Record_remove_phone phone_number r =
     (case List.find (\<lambda>phone. phone_value phone = phone_number) (phones r) of
        Some phone_to_remove \<Rightarrow> (r\<lparr>phones := remove1 phone_to_remove (phones r)\<rparr>, [])
      | None \<Rightarrow> (r, [''Phone number not found.'']))"

definition Record_edit_phone ::
  "string \<Rightarrow> string \<Rightarrow> Record \<Rightarrow> (exn + unit) \<times> Record \<times> string list" where
  "Record_edit_phone old_phone_number new_phone_number r =
     (let (r1, out) = Record_remove_phone old_phone_number r;
          (res, r2) = Record_add_phone new_phone_number r1
      in (res, r2, out))"

definition Record_find_phone :: "string \<Rightarrow> Record \<Rightarrow> string" where
  "Record_find_phone phone_number r =
     (case List.find (\<lambda>phone. phone_value phone = phone_number) (phones r) of
        Some phone \<Rightarrow> phone_value phone
      | None \<Rightarrow> ''Phone number not found.'')"

definition Record_add_birthday :: "string \<Rightarrow> Record \<Rightarrow> (exn + unit) \<times> Record" where
  "Record_add_birthday text r =
     (case Birthday_init text of
        Inl e \<Rightarrow> (Inl e, r)
      | Inr b \<Rightarrow> (Inr (), r\<lparr>birthday := Some b\<rparr>))"

definition Record_str :: "bool \<Rightarrow> Record \<Rightarrow> string" where
  "Record_str pad_year r =
     ''Contact name: '' @ name_value (name r) @
     '', Phones: '' @ join ''; '' (map phone_value (phones r)) @
     '', Birthday: '' @
     (case birthday r of None \<Rightarrow> ''None'' | Some b \<Rightarrow> Birthday_str pad_year b)"

section \<open>The address book\<close>

text \<open>
  \<^verbatim>\<open>AddressBook\<close> is a \<^verbatim>\<open>UserDict\<close>: its \<^verbatim>\<open>data\<close> is a dictionary, which keeps its keys
  in insertion order. It is an association list here; assigning to a key that is present
  replaces the value where it stands, assigning to a new key adds the entry at the end.
\<close>

type_synonym AddressBook = "(string \<times> Record) list"

definition AddressBook_add_record :: "Record \<Rightarrow> AddressBook \<Rightarrow> AddressBook" where
  "AddressBook_add_record new_record data =
     AList.update (name_value (name new_record)) new_record data"

definition AddressBook_find :: "string \<Rightarrow> AddressBook \<Rightarrow> Record option" where
  "AddressBook_find record_name data = map_of data record_name"

definition AddressBook_delete :: "string \<Rightarrow> AddressBook \<Rightarrow> AddressBook \<times> string list" where
  "AddressBook_delete record_name data =
     (if record_name \<in> fst ` set data then (AList.delete record_name data, [])
      else (data, [''Contact not found.'']))"

text \<open>
  A record found in the book is the stored object itself, so a method called on it changes
  the book's entry: \<open>store k r\<close> writes the record \<open>r\<close>, as the method left it, back under
  the key \<open>k\<close> it was found at.
\<close>

definition store :: "string \<Rightarrow> Record \<Rightarrow> AddressBook \<Rightarrow> AddressBook" where
  "store k r data = AList.update k r data"

subsection \<open>Upcoming birthdays\<close>

definition WEEKDAYS_LENGTH :: int where "WEEKDAYS_LENGTH = 5"
definition WEEK_LENGTH :: int where "WEEK_LENGTH = 7"

text \<open>What an f-string field or \<^verbatim>\<open>print\<close> can be given here, and its text.\<close>

datatype pyval = PNone | PStr string | PDate date | PExn exn | PBirthday Birthday

fun py_str :: "bool \<Rightarrow> pyval \<Rightarrow> string" where
  "py_str pad_year PNone = ''None''"
| "py_str pad_year (PStr s) = s"
| "py_str pad_year (PDate d) = isoformat d"
| "py_str pad_year (PExn e) = exn_message e"
| "py_str pad_year (PBirthday b) = Birthday_str pad_year b"

text \<open>
  Lines 131 to 132: the birthday is rendered, parsed again and moved to the current year.
\<close>

definition birthday_this_year :: "bool \<Rightarrow> int \<Rightarrow> Birthday \<Rightarrow> exn + date" where
  "birthday_this_year pad_year current_year b =
     (case strptime (Birthday_str pad_year b) of
        Inl e \<Rightarrow> Inl e
      | Inr user_birthday_date \<Rightarrow> replace_year user_birthday_date current_year)"

text \<open>
  Lines 138 to 143: the text of the date itself on a working day, and a \<^verbatim>\<open>date\<close> object,
  moved to the Monday after, on a Saturday or Sunday.
\<close>

definition congratulation_date :: "bool \<Rightarrow> date \<Rightarrow> exn + pyval" where
  "congratulation_date pad_year user_birthday_date_this_year =
     (let wd = weekday user_birthday_date_this_year in
      if wd < WEEKDAYS_LENGTH then Inr (PStr (strftime pad_year user_birthday_date_this_year))
      else
        (case date_add_days user_birthday_date_this_year (WEEK_LENGTH - wd) of
           Inl e \<Rightarrow> Inl e
         | Inr d \<Rightarrow> Inr (PDate d)))"

text \<open>
  The body of the loop for one contact: \<open>Inr None\<close> when it reaches a \<^verbatim>\<open>continue\<close>,
  \<open>Inr (Some line)\<close> when it appends \<open>line\<close>, \<open>Inl e\<close> when it raises \<open>e\<close>.
\<close>

definition upcoming_user :: "bool \<Rightarrow> date \<Rightarrow> Record \<Rightarrow> exn + string option" where
  "upcoming_user pad_year current_date user =
     (case birthday user of
        None \<Rightarrow> Inr None
      | Some b \<Rightarrow>
          (case birthday_this_year pad_year (year current_date) b of
             Inl e \<Rightarrow> Inl e
           | Inr user_birthday_date_this_year \<Rightarrow>
               let delta = days_between user_birthday_date_this_year current_date in
               if \<not> (0 \<le> delta \<and> delta < 7) then Inr None
               else
                 (case congratulation_date pad_year user_birthday_date_this_year of
                    Inl e \<Rightarrow> Inl e
                  | Inr cd \<Rightarrow>
                      Inr (Some (Record_str pad_year user @ '', Congratulation date: '' @
                                 py_str pad_year cd)))))"

text \<open>
  The loop over the book. The keys of a dictionary are unique, so \<^verbatim>\<open>self.data.get(user_name)\<close>
  is the value of the entry the loop is at. An exception leaves the loop at once.
\<close>

fun upcoming_loop ::
  "bool \<Rightarrow> date \<Rightarrow> (string \<times> Record) list \<Rightarrow> string list \<Rightarrow> exn + string list" where
  "upcoming_loop pad_year current_date [] users_for_congratulation =
     Inr users_for_congratulation"
| "upcoming_loop pad_year current_date ((user_name, user) # rest) users_for_congratulation =
     (case upcoming_user pad_year current_date user of
        Inl e \<Rightarrow> Inl e
      | Inr None \<Rightarrow> upcoming_loop pad_year current_date rest users_for_congratulation
      | Inr (Some line) \<Rightarrow>
          upcoming_loop pad_year current_date rest (users_for_congratulation @ [line]))"

text \<open>
  \<^verbatim>\<open>get_upcoming_birthdays\<close>, given today's date: the value returned (\<open>None\<close> is Python's
  \<^verbatim>\<open>None\<close>) and the lines printed. The handler of the \<^verbatim>\<open>try\<close> prints the exception and the
  function then ends without a \<^verbatim>\<open>return\<close>, which gives \<^verbatim>\<open>None\<close>.
\<close>

definition get_upcoming_birthdays ::
  "bool \<Rightarrow> date \<Rightarrow> AddressBook \<Rightarrow> string option \<times> string list" where
  "get_upcoming_birthdays pad_year current_date data =
     (case upcoming_loop pad_year current_date data [] of
        Inl e \<Rightarrow> (None, [exn_message e])
      | Inr users_for_congratulation \<Rightarrow>
          if length users_for_congratulation = 0 then (None, [])
          else (Some (join [newline] users_for_congratulation), []))"

section \<open>Command handlers\<close>

text \<open>
  \<^verbatim>\<open>input_error\<close>: the \<^verbatim>\<open>except\<close> clauses in the order of the source. The first clause whose
  class the exception is an instance of handles it.
\<close>

definition input_error_clauses :: "(exn_class \<times> (exn \<Rightarrow> pyval)) list" where
  "input_error_clauses =
     [(KeyError, \<lambda>e. PStr ''Enter a valid command.''),
      (ValueError, \<lambda>e. PStr ''Enter the argument for the command.''),
      (Exception, \<lambda>e. PExn e),
      (IndexError, \<lambda>e. PStr ''Give me both name and phone number.'')]"

fun try_except :: "(exn_class \<times> (exn \<Rightarrow> 'a)) list \<Rightarrow> exn \<Rightarrow> exn + 'a" where
  "try_except [] e = Inl e"
| "try_except ((c, h) # clauses) e = (if isinstance e c then Inr (h e) else try_except clauses e)"

definition input_error :: "exn + pyval \<Rightarrow> exn + pyval" where
  "input_error res = (case res of Inr v \<Rightarrow> Inr v | Inl e \<Rightarrow> try_except input_error_clauses e)"

text \<open>Unpacking \<^verbatim>\<open>args\<close> into \<open>n\<close> names raises \<^verbatim>\<open>ValueError\<close> on any other length.\<close>

definition unpack_error :: "nat \<Rightarrow> nat \<Rightarrow> exn" where
  "unpack_error expected got =
     (if got < expected
      then Exn ValueError (''not enough values to unpack (expected '' @ str_nat expected @
                           '', got '' @ str_nat got @ '')'')
      else Exn ValueError (''too many values to unpack (expected '' @ str_nat expected @ '')''))"

definition index_error :: exn where
  "index_error = Exn IndexError ''list index out of range''"

text \<open>
  Each handler is given as its undecorated body, which may raise, and as the decorated
  function of the source. Both return the book as it is afterwards.
\<close>

definition add_contact_body :: "string list \<Rightarrow> AddressBook \<Rightarrow> (exn + pyval) \<times> AddressBook" where
  "add_contact_body args book =
     (case args of
        [n, phone] \<Rightarrow>
          let (record, book1, message) =
                (case AddressBook_find n book of
                   None \<Rightarrow> (Record_init n, AddressBook_add_record (Record_init n) book,
                            ''Contact '' @ n @ '' has been added.'')
                 | Some r \<Rightarrow> (r, book, ''Contact '' @ n @ '' has been updated.''))
          in if phone \<noteq> []
             then (case Record_add_phone phone record of
                     (Inl e, r') \<Rightarrow> (Inl e, store n r' book1)
                   | (Inr u, r') \<Rightarrow> (Inr (PStr message), store n r' book1))
             else (Inr (PStr message), book1)
      | _ \<Rightarrow> (Inl (unpack_error 2 (length args)), book))"

definition add_contact :: "string list \<Rightarrow> AddressBook \<Rightarrow> (exn + pyval) \<times> AddressBook" where
  "add_contact args book = (let (res, b) = add_contact_body args book in (input_error res, b))"

definition change_contact_body ::
  "string list \<Rightarrow> AddressBook \<Rightarrow> (exn + pyval) \<times> AddressBook \<times> string list" where
  "change_contact_body args book =
     (case args of
        [n, old_phone_number, new_phone_number] \<Rightarrow>
          (case AddressBook_find n book of
             None \<Rightarrow> (Inr (PStr (''Contact '' @ n @ '' not found.'')), book, [])
           | Some record \<Rightarrow>
               (case Record_edit_phone old_phone_number new_phone_number record of
                  (Inl e, r', out) \<Rightarrow> (Inl e, store n r' book, out)
                | (Inr u, r', out) \<Rightarrow>
                    (Inr (PStr (''Contact '' @ n @ '' has been updated.'')), store n r' book, out)))
      | _ \<Rightarrow> (Inl (unpack_error 3 (length args)), book, []))"

definition change_contact ::
  "string list \<Rightarrow> AddressBook \<Rightarrow> (exn + pyval) \<times> AddressBook \<times> string list" where
  "change_contact args book =
     (let (res, b, out) = change_contact_body args book in (input_error res, b, out))"

definition show_phone_body :: "string list \<Rightarrow> AddressBook \<Rightarrow> exn + pyval" where
  "show_phone_body args book =
     (case args of
        [] \<Rightarrow> Inl index_error
      | n # _ \<Rightarrow>
          (case AddressBook_find n book of
             None \<Rightarrow> Inr (PStr (''Contact '' @ n @ '' not found.''))
           | Some record \<Rightarrow> Inr (PStr (join ''; '' (map phone_value (phones record))))))"

definition show_phone :: "string list \<Rightarrow> AddressBook \<Rightarrow> exn + pyval" where
  "show_phone args book = input_error (show_phone_body args book)"

definition add_birthday_body :: "string list \<Rightarrow> AddressBook \<Rightarrow> (exn + pyval) \<times> AddressBook" where
  "add_birthday_body args book =
     (case args of
        [n, bday] \<Rightarrow>
          (case AddressBook_find n book of
             None \<Rightarrow> (Inr (PStr (''Contact '' @ n @ '' not found.'')), book)
           | Some record \<Rightarrow>
               (case Record_add_birthday bday record of
                  (Inl e, r') \<Rightarrow> (Inl e, store n r' book)
                | (Inr u, r') \<Rightarrow>
                    (Inr (PStr (''Birthday has been added to '' @ n @ ''.'')), store n r' book)))
      | _ \<Rightarrow> (Inl (unpack_error 2 (length args)), book))"

definition add_birthday :: "string list \<Rightarrow> AddressBook \<Rightarrow> (exn + pyval) \<times> AddressBook" where
  "add_birthday args book = (let (res, b) = add_birthday_body args book in (input_error res, b))"

definition show_birthday_body :: "string list \<Rightarrow> AddressBook \<Rightarrow> exn + pyval" where
  "show_birthday_body args book =
     (case args of
        [] \<Rightarrow> Inl index_error
      | n # _ \<Rightarrow>
          (case AddressBook_find n book of
             None \<Rightarrow> Inr (PStr (''Contact '' @ n @ '' not found.''))
           | Some record \<Rightarrow>
               Inr (case birthday record of None \<Rightarrow> PNone | Some b \<Rightarrow> PBirthday b)))"

definition show_birthday :: "string list \<Rightarrow> AddressBook \<Rightarrow> exn + pyval" where
  "show_birthday args book = input_error (show_birthday_body args book)"

definition birthdays :: "bool \<Rightarrow> date \<Rightarrow> AddressBook \<Rightarrow> (exn + pyval) \<times> string list" where
  "birthdays pad_year current_date book =
     (let (upcoming_birthdays, out) = get_upcoming_birthdays pad_year current_date book
      in (input_error
            (case upcoming_birthdays of
               None \<Rightarrow> Inr (PStr ''Upcoming birthdays not found.'')
             | Some s \<Rightarrow> Inr (PStr s)),
          out))"

definition delete_contact_body ::
  "string list \<Rightarrow> AddressBook \<Rightarrow> (exn + pyval) \<times> AddressBook \<times> string list" where
  "delete_contact_body args book =
     (case args of
        [] \<Rightarrow> (Inl index_error, book, [])
      | n # _ \<Rightarrow>
          (case AddressBook_find n book of
             None \<Rightarrow> (Inr (PStr ''Contact not found.''), book, [])
           | Some record \<Rightarrow>
               (let (b, out) = AddressBook_delete n book
                in (Inr (PStr (''Contact '' @ n @ '' has been deleted.'')), b, out))))"

definition delete_contact ::
  "string list \<Rightarrow> AddressBook \<Rightarrow> (exn + pyval) \<times> AddressBook \<times> string list" where
  "delete_contact args book =
     (let (res, b, out) = delete_contact_body args book in (input_error res, b, out))"

section \<open>Sequences of operations\<close>

text \<open>
  The public operations that change an address book: those of \<^verbatim>\<open>AddressBook\<close>, the methods
  of a \<^verbatim>\<open>Record\<close> applied to the record stored under a name (the record that
  \<^verbatim>\<open>find\<close> returns), and the command handlers. A book reachable from the empty book is the
  result of a list of them.
\<close>

datatype operation =
    Add_record Record
  | Delete string
  | Add_phone string string
  | Remove_phone string string
  | Edit_phone string string string
  | Add_birthday string string
  | Cmd_add "string list"
  | Cmd_change "string list"
  | Cmd_add_birthday "string list"
  | Cmd_delete "string list"

definition on_record :: "string \<Rightarrow> (Record \<Rightarrow> Record) \<Rightarrow> AddressBook \<Rightarrow> AddressBook" where
  "on_record k f book =
     (case AddressBook_find k book of None \<Rightarrow> book | Some r \<Rightarrow> store k (f r) book)"

fun perform :: "operation \<Rightarrow> AddressBook \<Rightarrow> AddressBook" where
  "perform (Add_record r) book = AddressBook_add_record r book"
| "perform (Delete k) book = fst (AddressBook_delete k book)"
| "perform (Add_phone k p) book = on_record k (\<lambda>r. snd (Record_add_phone p r)) book"
| "perform (Remove_phone k p) book = on_record k (\<lambda>r. fst (Record_remove_phone p r)) book"
| "perform (Edit_phone k p q) book = on_record k (\<lambda>r. fst (snd (Record_edit_phone p q r))) book"
| "perform (Add_birthday k t) book = on_record k (\<lambda>r. snd (Record_add_birthday t r)) book"
| "perform (Cmd_add args) book = snd (add_contact args book)"
| "perform (Cmd_change args) book = fst (snd (change_contact args book))"
| "perform (Cmd_add_birthday args) book = snd (add_birthday args book)"
| "perform (Cmd_delete args) book = fst (snd (delete_contact args book))"

definition run :: "operation list \<Rightarrow> AddressBook" where
  "run ops = foldl (\<lambda>book operation. perform operation book) [] ops"

definition keys_match :: "AddressBook \<Rightarrow> bool" where
  "keys_match book = (distinct (map fst book) \<and> list_all (\<lambda>(k, r). name_value (name r) = k) book)"

section \<open>Accepted date texts\<close>








section \<open>Qualifying contacts\<close>

text \<open>
  A date is in the window when it lies zero to six days after the current date. A contact
  qualifies when its birthday is set, moving it to the current year succeeds, and the date
  obtained is in the window.
\<close>

definition in_window :: "date \<Rightarrow> date \<Rightarrow> bool" where
  "in_window current_date anchored =
     (0 \<le> days_between anchored current_date \<and> days_between anchored current_date < 7)"

definition qualifies :: "bool \<Rightarrow> date \<Rightarrow> Record \<Rightarrow> bool" where
  "qualifies pad_year current_date r =
     (case birthday r of
        None \<Rightarrow> False
      | Some b \<Rightarrow>
          (case birthday_this_year pad_year (year current_date) b of
             Inl e \<Rightarrow> False
           | Inr anchored \<Rightarrow> in_window current_date anchored))"

section \<open>Properties\<close>

subsection \<open>Helper facts\<close>

lemma isdigit_simps [simp]:
  "isdigit CHR ''0''" "isdigit CHR ''1''" "isdigit CHR ''2''" "isdigit CHR ''3''" "isdigit CHR ''4''"
  "isdigit CHR ''5''" "isdigit CHR ''6''" "isdigit CHR ''7''" "isdigit CHR ''8''" "isdigit CHR ''9''"
  "\<not> isdigit CHR ''.''" "\<not> isdigit CHR '' ''" "\<not> isdigit newline"
  by (simp_all add: isdigit_def newline_def)


lemma digit_val_range: "isdigit c \<Longrightarrow> 0 \<le> digit_val c \<and> digit_val c \<le> 9"
  by (auto simp: isdigit_def digit_val_def)


lemma Phone_init_ten_digits:
  "length s = 10 \<Longrightarrow> list_all isdigit s \<Longrightarrow> Phone_init s = Inr (Phone s)"
  by (simp add: Phone_init_def match_phone_def)

lemma strptime_raises_ValueError: "strptime s = Inl e \<Longrightarrow> \<exists>m. e = Exn ValueError m"
  by (auto simp: strptime_def py_int_def date_new_def Let_def
           split: option.splits sum.splits if_splits prod.splits)

lemma Birthday_init_error:
  "Birthday_init s = Inl e \<Longrightarrow> e = Exn Exception ''Invalid date format. Use DD.MM.YYYY''"
  by (auto simp: Birthday_init_def split: sum.splits dest!: strptime_raises_ValueError)

lemma Birthday_init_31_02: "Birthday_init ''31.02.2024'' = Inl (Exn Exception ''Invalid date format. Use DD.MM.YYYY'')"
  by (simp add: Birthday_init_def strptime_def format_regex_match_def format_regex_matches_def re_d_def re_m_def re_Y_def re_dot_def
     two_chars_def one_char_def digit19_def py_int_def strip_def isspace_def digit_val_def date_new_def
     MINYEAR_def MAXYEAR_def days_in_month_def is_leap_def DAYS_IN_MONTH_def)

lemma find_phone_None:
  "old \<notin> set (map phone_value ps) \<Longrightarrow> List.find (\<lambda>phone. phone_value phone = old) ps = None"
  by (induction ps) auto

lemma find_phone_Some:
  "old \<in> set (map phone_value ps) \<Longrightarrow>
     \<exists>xs ys. ps = xs @ Phone old # ys \<and> old \<notin> set (map phone_value xs) \<and>
       List.find (\<lambda>phone. phone_value phone = old) ps = Some (Phone old) \<and>
       remove1 (Phone old) ps = xs @ ys"
proof (induction ps)
  case Nil
  then show ?case by simp
next
  case (Cons p ps)
  show ?case
  proof (cases "phone_value p = old")
    case True
    then have "p = Phone old" by (cases p) simp
    then have "p # ps = [] @ Phone old # ps \<and> old \<notin> set (map phone_value []) \<and>
       List.find (\<lambda>phone. phone_value phone = old) (p # ps) = Some (Phone old) \<and>
       remove1 (Phone old) (p # ps) = [] @ ps" by simp
    then show ?thesis by blast
  next
    case False
    with Cons.prems have "old \<in> set (map phone_value ps)" by simp
    from Cons.IH [OF this] obtain xs ys where
      h: "ps = xs @ Phone old # ys" "old \<notin> set (map phone_value xs)"
         "List.find (\<lambda>phone. phone_value phone = old) ps = Some (Phone old)"
         "remove1 (Phone old) ps = xs @ ys" by blast
    from False have ne: "p \<noteq> Phone old" by auto
    have "p # ps = (p # xs) @ Phone old # ys \<and> old \<notin> set (map phone_value (p # xs)) \<and>
       List.find (\<lambda>phone. phone_value phone = old) (p # ps) = Some (Phone old) \<and>
       remove1 (Phone old) (p # ps) = (p # xs) @ ys"
      using h False ne by auto
    then show ?thesis by blast
  qed
qed

lemma list_all_update:
  "list_all P book \<Longrightarrow> P (k, r) \<Longrightarrow> list_all P (AList.update k r book)"
  by (induction book) auto

lemma keys_match_update:
  "keys_match book \<Longrightarrow> name_value (name r) = k \<Longrightarrow> keys_match (AList.update k r book)"
  by (simp add: keys_match_def distinct_update list_all_update)

lemma list_all_delete: "list_all P book \<Longrightarrow> list_all P (AList.delete k book)"
  by (induction book) auto

lemma keys_match_delete: "keys_match book \<Longrightarrow> keys_match (AList.delete k book)"
  by (simp add: keys_match_def distinct_delete list_all_delete)

lemma keys_match_find:
  "keys_match book \<Longrightarrow> AddressBook_find k book = Some r \<Longrightarrow> name_value (name r) = k"
  by (induction book) (auto simp: keys_match_def AddressBook_find_def split: if_splits)

lemma name_add_phone [simp]: "name (snd (Record_add_phone p r)) = name r"
  by (simp add: Record_add_phone_def split: sum.splits)

lemma name_remove_phone [simp]: "name (fst (Record_remove_phone p r)) = name r"
  by (simp add: Record_remove_phone_def split: option.splits)

lemma name_edit_phone [simp]: "name (fst (snd (Record_edit_phone p q r))) = name r"
proof -
  have "fst (snd (Record_edit_phone p q r)) = snd (Record_add_phone q (fst (Record_remove_phone p r)))"
    by (simp add: Record_edit_phone_def split: prod.splits)
  then show ?thesis by simp
qed

lemma name_add_birthday [simp]: "name (snd (Record_add_birthday t r)) = name r"
  by (simp add: Record_add_birthday_def split: sum.splits)

lemma keys_match_on_record:
  assumes "keys_match book" and "\<And>r. name (f r) = name r"
  shows "keys_match (on_record k f book)"
proof (cases "AddressBook_find k book")
  case None
  with assms show ?thesis by (simp add: on_record_def)
next
  case (Some r)
  from keys_match_find [OF assms(1) Some] assms(2) have "name_value (name (f r)) = k" by simp
  from keys_match_update [OF assms(1) this] Some show ?thesis by (simp add: on_record_def store_def)
qed

lemma keys_match_add_record: "keys_match book \<Longrightarrow> keys_match (AddressBook_add_record r book)"
  by (simp add: AddressBook_add_record_def keys_match_update)

lemma keys_match_AddressBook_delete: "keys_match book \<Longrightarrow> keys_match (fst (AddressBook_delete k book))"
  by (simp add: AddressBook_delete_def keys_match_delete)

lemma keys_match_add_contact:
  assumes "keys_match book"
  shows "keys_match (snd (add_contact args book))"
proof -
  have body: "keys_match (snd (add_contact_body args book))"
  proof (cases "\<exists>n phone. args = [n, phone]")
    case False
    then have "snd (add_contact_body args book) = book"
      by (auto simp: add_contact_body_def split: list.splits)
    with assms show ?thesis by simp
  next
    case True
    then obtain n phone where args: "args = [n, phone]" by blast
    show ?thesis
    proof (cases "AddressBook_find n book")
      case None
      have k1: "keys_match (AddressBook_add_record (Record_init n) book)"
        by (rule keys_match_add_record [OF assms])
      have "name_value (name (snd (Record_add_phone phone (Record_init n)))) = n"
        by (simp add: Record_init_def)
      from keys_match_update [OF k1 this] k1 show ?thesis
        by (cases "Record_add_phone phone (Record_init n)"; cases "fst (Record_add_phone phone (Record_init n))")
           (auto simp: add_contact_body_def args None store_def)
    next
      case (Some r)
      from keys_match_find [OF assms Some]
      have "name_value (name (snd (Record_add_phone phone r))) = n" by simp
      from keys_match_update [OF assms this] assms show ?thesis
        by (cases "Record_add_phone phone r"; cases "fst (Record_add_phone phone r)")
           (auto simp: add_contact_body_def args Some store_def)
    qed
  qed
  then show ?thesis by (simp add: add_contact_def case_prod_beta)
qed

lemma keys_match_change_contact:
  assumes "keys_match book"
  shows "keys_match (fst (snd (change_contact args book)))"
proof -
  have body: "keys_match (fst (snd (change_contact_body args book)))"
  proof (cases "\<exists>n p q. args = [n, p, q]")
    case False
    then have "fst (snd (change_contact_body args book)) = book"
      by (auto simp: change_contact_body_def split: list.splits)
    with assms show ?thesis by simp
  next
    case True
    then obtain n p q where args: "args = [n, p, q]" by blast
    have "fst (snd (change_contact_body args book)) =
            on_record n (\<lambda>r. fst (snd (Record_edit_phone p q r))) book"
      by (simp add: change_contact_body_def args on_record_def split: option.splits prod.splits sum.splits)
    then show ?thesis by (simp add: keys_match_on_record [OF assms])
  qed
  then show ?thesis by (simp add: change_contact_def case_prod_beta)
qed

lemma keys_match_add_birthday:
  assumes "keys_match book"
  shows "keys_match (snd (add_birthday args book))"
proof -
  have body: "keys_match (snd (add_birthday_body args book))"
  proof (cases "\<exists>n t. args = [n, t]")
    case False
    then have "snd (add_birthday_body args book) = book"
      by (auto simp: add_birthday_body_def split: list.splits)
    with assms show ?thesis by simp
  next
    case True
    then obtain n t where args: "args = [n, t]" by blast
    have "snd (add_birthday_body args book) = on_record n (\<lambda>r. snd (Record_add_birthday t r)) book"
      by (simp add: add_birthday_body_def args on_record_def split: option.splits prod.splits sum.splits)
    then show ?thesis by (simp add: keys_match_on_record [OF assms])
  qed
  then show ?thesis by (simp add: add_birthday_def case_prod_beta)
qed

lemma keys_match_delete_contact:
  assumes "keys_match book"
  shows "keys_match (fst (snd (delete_contact args book)))"
proof -
  have "fst (snd (delete_contact_body args book)) = book \<or>
        (\<exists>n. fst (snd (delete_contact_body args book)) = fst (AddressBook_delete n book))"
    by (auto simp: delete_contact_body_def split: list.splits option.splits prod.splits)
  with assms have "keys_match (fst (snd (delete_contact_body args book)))"
    by (auto simp: keys_match_AddressBook_delete)
  then show ?thesis by (simp add: delete_contact_def case_prod_beta)
qed

lemma keys_match_perform: "keys_match book \<Longrightarrow> keys_match (perform operation book)"
  by (cases operation)
     (simp_all add: keys_match_add_record keys_match_AddressBook_delete keys_match_on_record
        keys_match_add_contact keys_match_change_contact keys_match_add_birthday
        keys_match_delete_contact)

lemma keys_match_foldl:
  "keys_match book \<Longrightarrow> keys_match (foldl (\<lambda>book operation. perform operation book) book ops)"
  by (induction ops arbitrary: book) (simp_all add: keys_match_perform)

































lemma month_cases:
  "1 \<le> m \<Longrightarrow> m \<le> 12 \<Longrightarrow> m \<in> {1, 2, 3, 4, 5, 6, 7, 8, 9, 10, 11, 12 :: int}"
  by simp presburger










lemmas parse_defs = strptime_def format_regex_match_def format_regex_matches_def re_d_def
  re_m_def re_Y_def re_dot_def two_chars_def one_char_def digit19_def py_int_def strip_def
  isspace_def digit_val_def

lemmas date_defs = date_new_def valid_date_def MINYEAR_def MAXYEAR_def days_in_month_def is_leap_def
  DAYS_IN_MONTH_def



lemma div_pred:
  fixes y k :: int
  assumes "0 < k"
  shows "y div k = (y - 1) div k + (if y mod k = 0 then 1 else 0)"
proof (cases "y mod k = 0")
  case True
  have "y - 1 = k * (y div k - 1) + (k - 1)"
    using True mult_div_mod_eq [of k y] by (simp add: algebra_simps)
  from int_div_pos_eq [OF this] assms have "(y - 1) div k = y div k - 1" by simp
  with True show ?thesis by simp
next
  case False
  with pos_mod_sign [OF assms, of y] have "0 < y mod k" by linarith
  moreover have "y mod k < k" using assms by simp
  moreover have eq: "y - 1 = k * (y div k) + (y mod k - 1)"
    using mult_div_mod_eq [of k y] by (simp add: algebra_simps)
  ultimately have "(y - 1) div k = y div k" using int_div_pos_eq [OF eq] by simp
  with False show ?thesis by simp
qed

lemma leap_step:
  "(y::int) div 4 - y div 100 + y div 400 =
     (y - 1) div 4 - (y - 1) div 100 + (y - 1) div 400 + (if is_leap y then 1 else 0)"
proof -
  have a: "y div 4 = (y - 1) div 4 + (if y mod 4 = 0 then 1 else 0)" by (rule div_pred) simp
  have b: "y div 100 = (y - 1) div 100 + (if y mod 100 = 0 then 1 else 0)" by (rule div_pred) simp
  have c: "y div 400 = (y - 1) div 400 + (if y mod 400 = 0 then 1 else 0)" by (rule div_pred) simp
  have "y mod 4 = y mod 100 mod 4" by (simp add: mod_mod_cancel)
  then have d: "y mod 100 = 0 \<Longrightarrow> y mod 4 = 0" by simp
  have "y mod 100 = y mod 400 mod 100" by (simp add: mod_mod_cancel)
  then have e: "y mod 400 = 0 \<Longrightarrow> y mod 100 = 0" by simp
  show ?thesis
    by (cases "y mod 4 = 0"; cases "y mod 100 = 0"; cases "y mod 400 = 0")
       (simp_all only: a b c is_leap_def d e, simp_all)
qed

lemma days_before_year_step:
  "days_before_year (y + 1) = days_before_year y + 365 + (if is_leap y then 1 else 0)"
  using leap_step [of y] by (simp add: days_before_year_def Let_def)

lemma days_before_year_upper:
  assumes "1 \<le> y" and "y \<le> 10000"
  shows "days_before_year y \<le> 3652059"
proof -
  define z where "z = y - 1"
  define a where "a = z div 4"
  have z: "0 \<le> z" "z \<le> 9999" using assms by (simp_all add: z_def)
  have b: "z div 100 = a div 25" by (simp add: a_def zdiv_zmult2_eq [symmetric])
  have a1: "4 * a \<le> z" unfolding a_def by presburger
  have b1: "a - 24 \<le> 25 * (a div 25)" by presburger
  have c1: "400 * (z div 400) \<le> z" by presburger
  from z a1 have a2: "a \<le> 2499" by linarith
  from z c1 have c2: "z div 400 \<le> 24" by linarith
  from z a2 b1 c2 have "365 * z + a - a div 25 + z div 400 \<le> 3652059" by linarith
  then show ?thesis by (simp add: days_before_year_def Let_def z_def [symmetric] a_def [symmetric] b)
qed

lemma days_before_year_lower:
  assumes "1 \<le> y"
  shows "0 \<le> days_before_year y"
proof -
  define z where "z = y - 1"
  define a where "a = z div 4"
  have z: "0 \<le> z" using assms by (simp add: z_def)
  have b: "z div 100 = a div 25" by (simp add: a_def zdiv_zmult2_eq [symmetric])
  have a1: "0 \<le> a" using z by (simp add: a_def)
  have b1: "25 * (a div 25) \<le> a" by presburger
  have c1: "0 \<le> z div 400" using z by simp
  from z a1 b1 c1 have "0 \<le> 365 * z + a - a div 25 + z div 400" by linarith
  then show ?thesis by (simp add: days_before_year_def Let_def z_def [symmetric] a_def [symmetric] b)
qed

lemma day_of_year_bounds:
  assumes "1 \<le> m" and "m \<le> 12" and "1 \<le> d" and "d \<le> days_in_month y m"
  shows "1 \<le> days_before_month y m + d"
    and "days_before_month y m + d \<le> 365 + (if is_leap y then 1 else 0)"
  using month_cases [OF assms(1,2)] assms(3,4)
  by (auto simp: days_before_month_def days_in_month_def DAYS_BEFORE_MONTH_def DAYS_IN_MONTH_def
        split: if_splits)

lemma toordinal_bounds:
  assumes "valid_date d"
  shows "1 \<le> toordinal d" and "toordinal d \<le> MAXORDINAL"
proof -
  from assms have y: "1 \<le> year d" "year d \<le> 9999" and m: "1 \<le> month d" "month d \<le> 12"
    and dd: "1 \<le> day d" "day d \<le> days_in_month (year d) (month d)"
    by (simp_all add: valid_date_def MINYEAR_def MAXYEAR_def)
  note b = day_of_year_bounds [OF m dd]
  from days_before_year_lower [OF y(1)] b(1) show "1 \<le> toordinal d"
    by (simp add: toordinal_def ymd2ord_def)
  from y have "1 \<le> year d + 1" "year d + 1 \<le> 10000" by simp_all
  from days_before_year_upper [OF this] days_before_year_step [of "year d"] b(2)
  show "toordinal d \<le> MAXORDINAL"
    by (simp add: toordinal_def ymd2ord_def MAXORDINAL_def split: if_splits)
qed

lemma weekend_shift_in_range:
  fixes n :: int
  assumes "1 \<le> n" and "n \<le> 3652059" and "5 \<le> (n + 6) mod 7"
  shows "0 < n + (7 - (n + 6) mod 7)" and "n + (7 - (n + 6) mod 7) \<le> 3652059"
proof -
  have "(n + 6) mod 7 < 7" by simp
  with assms(1) show "0 < n + (7 - (n + 6) mod 7)" by linarith
  define t where "t = 3652059 - n"
  have t: "0 \<le> t" using assms(2) by (simp add: t_def)
  have "n + 6 = (4 - t) + 7 * 521723" by (simp add: t_def)
  then have "(n + 6) mod 7 = (4 - t) mod 7" by (simp only: mod_mult_self2)
  with assms(3) have 5: "5 \<le> (4 - t) mod 7" by simp
  with t have "7 - (4 - t) mod 7 \<le> t" by presburger
  with \<open>(n + 6) mod 7 = (4 - t) mod 7\<close> show "n + (7 - (n + 6) mod 7) \<le> 3652059"
    by (simp add: t_def)
qed

lemma congratulation_date_value:
  assumes "valid_date a"
  shows "congratulation_date pad a =
           Inr (if weekday a < 5 then PStr (strftime pad a)
                else PDate (ord2ymd (toordinal a + (7 - weekday a))))"
proof (cases "weekday a < 5")
  case True
  then show ?thesis by (simp add: congratulation_date_def WEEKDAYS_LENGTH_def)
next
  case False
  then have "5 \<le> (toordinal a + 6) mod 7" by (simp add: weekday_def)
  from weekend_shift_in_range [OF _ _ this] toordinal_bounds [OF assms]
  have "0 < toordinal a + (7 - weekday a)" "toordinal a + (7 - weekday a) \<le> MAXORDINAL"
    by (simp_all add: MAXORDINAL_def weekday_def)
  with False show ?thesis
    by (simp add: congratulation_date_def WEEKDAYS_LENGTH_def WEEK_LENGTH_def date_add_days_def)
qed

lemma upcoming_user_not_qualifies:
  "\<not> qualifies pad cd r \<Longrightarrow>
     upcoming_user pad cd r = Inr None \<or> (\<exists>e. upcoming_user pad cd r = Inl e)"
  by (auto simp: qualifies_def upcoming_user_def in_window_def Let_def split: option.splits sum.splits)

lemma upcoming_loop_no_qualifier:
  "list_all (\<lambda>(k, r). \<not> qualifies pad cd r) book \<Longrightarrow>
     upcoming_loop pad cd book acc = Inr acc \<or> (\<exists>e. upcoming_loop pad cd book acc = Inl e)"
proof (induction book arbitrary: acc)
  case Nil
  then show ?case by simp
next
  case (Cons kr book)
  obtain k r where kr: "kr = (k, r)" by (cases kr)
  from Cons.prems kr have nq: "\<not> qualifies pad cd r"
    and rest: "list_all (\<lambda>(k, r). \<not> qualifies pad cd r) book" by simp_all
  from upcoming_user_not_qualifies [OF nq] Cons.IH [OF rest, of acc] kr
  show ?case by auto
qed


lemma birthdays_of_None:
  "fst (get_upcoming_birthdays pad cd book) = None \<Longrightarrow>
     fst (birthdays pad cd book) = Inr (PStr ''Upcoming birthdays not found.'')"
  by (simp add: birthdays_def input_error_def case_prod_beta)










lemmas upcoming_defs = get_upcoming_birthdays_def upcoming_user_def birthday_this_year_def
  Birthday_str_def strftime_def str_int_def str_nat.simps zfill_def replace_year_def days_between_def
  toordinal_def ymd2ord_def days_before_year_def days_before_month_def DAYS_BEFORE_MONTH_def
  congratulation_date_def weekday_def WEEKDAYS_LENGTH_def WEEK_LENGTH_def date_add_days_def
  MAXORDINAL_def ord2ymd_def isoformat_def Record_str_def Let_def digit_char_def

subsection \<open>Phone numbers\<close>

text \<open>
  C4. The claim: \<^verbatim>\<open>Phone\<close> accepts exactly the strings of ten ASCII digits, with nothing before
  or after them, and fails on every other string. The code accepts the eleven-character
  string made of ten digits and a final newline, because \<^verbatim>\<open>$\<close> also matches just before a
  newline that ends the string.
\<close>

theorem Phone_init_trailing_newline:
  "Phone_init (''1234567890'' @ [newline]) = Inr (Phone (''1234567890'' @ [newline]))"
  by (simp add: Phone_init_def match_phone_def)

subsection \<open>Editing a phone\<close>

text \<open>
  C6. For a new number of exactly ten digits: when no phone of the record has the old text,
  \<^verbatim>\<open>edit_phone\<close> keeps every phone and appends the new one (and prints the diagnostic of the
  remove step); when some phone has the old text, the first such phone is taken out, the
  others stay in their order, and the new one is appended.
\<close>

theorem Record_edit_phone_effect:
  assumes "length new = 10" and "list_all isdigit new"
  shows "(old \<notin> set (map phone_value (phones r)) \<longrightarrow>
            Record_edit_phone old new r =
              (Inr (), r\<lparr>phones := phones r @ [Phone new]\<rparr>, [''Phone number not found.''])) \<and>
         (old \<in> set (map phone_value (phones r)) \<longrightarrow>
            (\<exists>xs ys. phones r = xs @ Phone old # ys \<and> old \<notin> set (map phone_value xs) \<and>
               Record_edit_phone old new r = (Inr (), r\<lparr>phones := xs @ ys @ [Phone new]\<rparr>, [])))"
proof (intro conjI impI)
  assume "old \<notin> set (map phone_value (phones r))"
  then show "Record_edit_phone old new r =
      (Inr (), r\<lparr>phones := phones r @ [Phone new]\<rparr>, [''Phone number not found.''])"
    using Phone_init_ten_digits [OF assms]
    by (simp add: Record_edit_phone_def Record_remove_phone_def Record_add_phone_def find_phone_None)
next
  assume "old \<in> set (map phone_value (phones r))"
  from find_phone_Some [OF this] obtain xs ys where
    h: "phones r = xs @ Phone old # ys" "old \<notin> set (map phone_value xs)"
       "List.find (\<lambda>phone. phone_value phone = old) (phones r) = Some (Phone old)"
       "remove1 (Phone old) (phones r) = xs @ ys" by blast
  have "Record_edit_phone old new r = (Inr (), r\<lparr>phones := xs @ ys @ [Phone new]\<rparr>, [])"
    using Phone_init_ten_digits [OF assms] h(3,4)
    by (simp add: Record_edit_phone_def Record_remove_phone_def Record_add_phone_def)
  with h(1,2) show "\<exists>xs ys. phones r = xs @ Phone old # ys \<and> old \<notin> set (map phone_value xs) \<and>
               Record_edit_phone old new r = (Inr (), r\<lparr>phones := xs @ ys @ [Phone new]\<rparr>, [])"
    by blast
qed

theorem Record_edit_phone_effect_witness:
  "length ''0000000000'' = 10 \<and> list_all isdigit ''0000000000'' \<and>
   ''5555555555'' \<notin> set (map phone_value [Phone ''1234567890'', Phone ''1111111111'']) \<and>
   Record_edit_phone ''5555555555'' ''0000000000''
       \<lparr>name = Name ''Al'', phones = [Phone ''1234567890'', Phone ''1111111111''], birthday = None\<rparr> =
     (Inr (),
      \<lparr>name = Name ''Al'',
         phones = [Phone ''1234567890'', Phone ''1111111111'', Phone ''0000000000''],
         birthday = None\<rparr>,
      [''Phone number not found.'']) \<and>
   ''1234567890'' \<in> set (map phone_value [Phone ''1234567890'', Phone ''1111111111'']) \<and>
   (\<exists>xs ys. [Phone ''1234567890'', Phone ''1111111111''] = xs @ Phone ''1234567890'' # ys \<and>
        ''1234567890'' \<notin> set (map phone_value xs) \<and>
        Record_edit_phone ''1234567890'' ''0000000000''
            \<lparr>name = Name ''Al'', phones = [Phone ''1234567890'', Phone ''1111111111''],
               birthday = None\<rparr> =
          (Inr (), \<lparr>name = Name ''Al'', phones = xs @ ys @ [Phone ''0000000000''], birthday = None\<rparr>,
           []))"
  using Record_edit_phone_effect [of "''0000000000''" "''5555555555''"
          "\<lparr>name = Name ''Al'', phones = [Phone ''1234567890'', Phone ''1111111111''], birthday = None\<rparr>"]
        Record_edit_phone_effect [of "''0000000000''" "''1234567890''"
          "\<lparr>name = Name ''Al'', phones = [Phone ''1234567890'', Phone ''1111111111''], birthday = None\<rparr>"]
  by simp

subsection \<open>Setting a birthday\<close>

text \<open>
  C10. When \<^verbatim>\<open>Birthday\<close> fails on the text, \<^verbatim>\<open>Record.add_birthday\<close> raises the validation
  error and the record is what it was: name, phones and the birthday stored before.
\<close>

theorem Record_add_birthday_atomic:
  assumes "Birthday_init text = Inl e"
  shows "Record_add_birthday text r = (Inl (Exn Exception ''Invalid date format. Use DD.MM.YYYY''), r)"
  using assms Birthday_init_error [OF assms] by (simp add: Record_add_birthday_def)

theorem Record_add_birthday_atomic_witness:
  "Birthday_init ''31.02.2024'' = Inl (Exn Exception ''Invalid date format. Use DD.MM.YYYY'') \<and>
   Record_add_birthday ''31.02.2024''
       \<lparr>name = Name ''Al'', phones = [Phone ''1234567890''],
          birthday = Some (Birthday \<lparr>year = 2000, month = 6, day = 10\<rparr>)\<rparr> =
     (Inl (Exn Exception ''Invalid date format. Use DD.MM.YYYY''),
      \<lparr>name = Name ''Al'', phones = [Phone ''1234567890''],
         birthday = Some (Birthday \<lparr>year = 2000, month = 6, day = 10\<rparr>)\<rparr>)"
  using Record_add_birthday_atomic [OF Birthday_init_31_02] Birthday_init_31_02 by simp

subsection \<open>Missing arguments\<close>

text \<open>
  C8. The claim: a command with too few tokens returns the missing-argument message. For
  \<^verbatim>\<open>phone\<close> with no argument the code returns the \<^verbatim>\<open>IndexError\<close> object itself: the clause
  \<^verbatim>\<open>except Exception\<close> stands before \<^verbatim>\<open>except IndexError\<close> and takes every exception that
  reaches it, so the message of the last clause is never returned.
\<close>

theorem show_phone_no_argument:
  "show_phone [] book = Inr (PExn (Exn IndexError ''list index out of range''))"
  by (simp add: show_phone_def show_phone_body_def input_error_def input_error_clauses_def index_error_def)

subsection \<open>Names and keys\<close>

text \<open>
  C9. In every address book reached from the empty book by the public operations, the keys
  are pairwise different and every record is stored under its own name.
\<close>

theorem reachable_books_keys_match:
  "distinct (map fst (run ops)) \<and> (\<forall>(k, r) \<in> set (run ops). name_value (name r) = k)"
proof -
  have "keys_match []" by (simp add: keys_match_def)
  from keys_match_foldl [OF this] have "keys_match (run ops)" by (simp add: run_def)
  then show ?thesis by (auto simp: keys_match_def list_all_iff)
qed

theorem reachable_books_keys_match_witness:
  "run [Cmd_add [''Al'', ''1234567890''], Add_record (Record_init ''Bob''),
       Cmd_add_birthday [''Al'', ''10.06.2000''], Add_phone ''Bob'' ''1112223334'',
       Cmd_change [''Al'', ''1234567890'', ''0000000000''], Cmd_add [''Cy'', ''12''],
       Cmd_delete [''Cy'']] =
     [(''Al'', \<lparr>name = Name ''Al'', phones = [Phone ''0000000000''],
                birthday = Some (Birthday \<lparr>year = 2000, month = 6, day = 10\<rparr>)\<rparr>),
      (''Bob'', \<lparr>name = Name ''Bob'', phones = [Phone ''1112223334''], birthday = None\<rparr>)] \<and>
   distinct (map fst (run [Cmd_add [''Al'', ''1234567890''], Add_record (Record_init ''Bob''),
       Cmd_add_birthday [''Al'', ''10.06.2000''], Add_phone ''Bob'' ''1112223334'',
       Cmd_change [''Al'', ''1234567890'', ''0000000000''], Cmd_add [''Cy'', ''12''],
       Cmd_delete [''Cy'']])) \<and>
   (''Bob'', \<lparr>name = Name ''Bob'', phones = [Phone ''1112223334''], birthday = None\<rparr>)
     \<in> set (run [Cmd_add [''Al'', ''1234567890''], Add_record (Record_init ''Bob''),
       Cmd_add_birthday [''Al'', ''10.06.2000''], Add_phone ''Bob'' ''1112223334'',
       Cmd_change [''Al'', ''1234567890'', ''0000000000''], Cmd_add [''Cy'', ''12''],
       Cmd_delete [''Cy'']]) \<and>
   name_value (name \<lparr>name = Name ''Bob'', phones = [Phone ''1112223334''], birthday = None\<rparr>) =
     ''Bob''"
proof -
  have r: "run [Cmd_add [''Al'', ''1234567890''], Add_record (Record_init ''Bob''),
       Cmd_add_birthday [''Al'', ''10.06.2000''], Add_phone ''Bob'' ''1112223334'',
       Cmd_change [''Al'', ''1234567890'', ''0000000000''], Cmd_add [''Cy'', ''12''],
       Cmd_delete [''Cy'']] =
     [(''Al'', \<lparr>name = Name ''Al'', phones = [Phone ''0000000000''],
                birthday = Some (Birthday \<lparr>year = 2000, month = 6, day = 10\<rparr>)\<rparr>),
      (''Bob'', \<lparr>name = Name ''Bob'', phones = [Phone ''1112223334''], birthday = None\<rparr>)]"
    by code_simp
  from reachable_books_keys_match [of "[Cmd_add [''Al'', ''1234567890''], Add_record (Record_init ''Bob''),
       Cmd_add_birthday [''Al'', ''10.06.2000''], Add_phone ''Bob'' ''1112223334'',
       Cmd_change [''Al'', ''1234567890'', ''0000000000''], Cmd_add [''Cy'', ''12''],
       Cmd_delete [''Cy'']]"]
  have "distinct (map fst (run [Cmd_add [''Al'', ''1234567890''], Add_record (Record_init ''Bob''),
       Cmd_add_birthday [''Al'', ''10.06.2000''], Add_phone ''Bob'' ''1112223334'',
       Cmd_change [''Al'', ''1234567890'', ''0000000000''], Cmd_add [''Cy'', ''12''],
       Cmd_delete [''Cy'']]))"
    by (rule conjunct1)
  with r show ?thesis by simp
qed

subsection \<open>Birthdays\<close>




subsection \<open>No upcoming birthdays\<close>

text \<open>
  C7. When no contact of the book qualifies (the book may be empty, or hold no birthday at
  all), \<^verbatim>\<open>get_upcoming_birthdays\<close> returns \<^verbatim>\<open>None\<close>, which is no list and no text, and the
  \<^verbatim>\<open>birthdays\<close> command returns its "not found" message.
\<close>

theorem no_upcoming_birthdays_is_None:
  assumes "list_all (\<lambda>(k, r). \<not> qualifies pad_year current_date r) book"
  shows "fst (get_upcoming_birthdays pad_year current_date book) = None \<and>
         fst (birthdays pad_year current_date book) = Inr (PStr ''Upcoming birthdays not found.'')"
proof -
  from upcoming_loop_no_qualifier [OF assms, of "[]"]
  have "fst (get_upcoming_birthdays pad_year current_date book) = None"
    by (auto simp: get_upcoming_birthdays_def)
  with birthdays_of_None show ?thesis by simp
qed

theorem no_upcoming_birthdays_is_None_witness:
  "list_all (\<lambda>(k, r). \<not> qualifies False \<lparr>year = 2024, month = 6, day = 10\<rparr> r)
     [(''Al'', \<lparr>name = Name ''Al'', phones = [Phone ''1234567890''], birthday = None\<rparr>),
      (''Cy'', \<lparr>name = Name ''Cy'', phones = [],
               birthday = Some (Birthday \<lparr>year = 1990, month = 6, day = 17\<rparr>)\<rparr>)] \<and>
   fst (get_upcoming_birthdays False \<lparr>year = 2024, month = 6, day = 10\<rparr>
     [(''Al'', \<lparr>name = Name ''Al'', phones = [Phone ''1234567890''], birthday = None\<rparr>),
      (''Cy'', \<lparr>name = Name ''Cy'', phones = [],
               birthday = Some (Birthday \<lparr>year = 1990, month = 6, day = 17\<rparr>)\<rparr>)]) = None \<and>
   fst (birthdays False \<lparr>year = 2024, month = 6, day = 10\<rparr>
     [(''Al'', \<lparr>name = Name ''Al'', phones = [Phone ''1234567890''], birthday = None\<rparr>),
      (''Cy'', \<lparr>name = Name ''Cy'', phones = [],
               birthday = Some (Birthday \<lparr>year = 1990, month = 6, day = 17\<rparr>)\<rparr>)]) =
     Inr (PStr ''Upcoming birthdays not found.'') \<and>
   fst (get_upcoming_birthdays False \<lparr>year = 2024, month = 6, day = 10\<rparr> []) = None \<and>
   fst (birthdays False \<lparr>year = 2024, month = 6, day = 10\<rparr> []) =
     Inr (PStr ''Upcoming birthdays not found.'')"
proof -
  have h: "list_all (\<lambda>(k, r). \<not> qualifies False \<lparr>year = 2024, month = 6, day = 10\<rparr> r)
     [(''Al'', \<lparr>name = Name ''Al'', phones = [Phone ''1234567890''], birthday = None\<rparr>),
      (''Cy'', \<lparr>name = Name ''Cy'', phones = [],
               birthday = Some (Birthday \<lparr>year = 1990, month = 6, day = 17\<rparr>)\<rparr>)]"
    by (simp add: qualifies_def in_window_def upcoming_defs parse_defs date_defs)
  have e: "list_all (\<lambda>(k, r). \<not> qualifies False \<lparr>year = 2024, month = 6, day = 10\<rparr> r) []"
    by simp
  from h no_upcoming_birthdays_is_None [OF h] no_upcoming_birthdays_is_None [OF e]
  show ?thesis by simp
qed

subsection \<open>A birthday on 29 February\<close>




end
